theory Spec2Isabelle
  imports Complex_Main "HOL-Library.Sublist"
begin

section \<open>Python values and failures\<close>

text \<open>
  The two optimizer classes of \<^verbatim>\<open>scripts/CP2K\<close> are embedded as functions on a
  record of the object's attributes. Every place where the Python raises or
  leaves the process is a branch of the model that returns \<open>Inl\<close> of the
  exception; a normal return is \<open>Inr\<close>. Python floats are modelled by the reals
  (sums, differences and comparisons are exact), NumPy integers by \<open>int\<close>.
\<close>

datatype error =
    SystemExit
  | KeyError
  | IndexError
  | ValueError
  | UnboundLocalError
  | ZeroDivisionError
  | FileNotFoundError
  | NonFinite

text \<open>
  \<^verbatim>\<open>xs[i]\<close> on a Python list or NumPy array: an index from \<open>-len(xs)\<close> up to
  \<open>-1\<close> counts from the end, anything outside \<open>-len(xs) .. len(xs) - 1\<close> raises.
\<close>

definition py_index :: "'a list \<Rightarrow> int \<Rightarrow> error + 'a" where
  "py_index xs i =
     (if 0 \<le> i \<and> i < int (length xs) then Inr (xs ! nat i)
      else if i < 0 \<and> - int (length xs) \<le> i then Inr (xs ! nat (int (length xs) + i))
      else Inl IndexError)"

text \<open>\<^verbatim>\<open>np.diff(xs)\<close> on a one-dimensional sequence: \<open>xs[k+1] - xs[k]\<close> for each \<open>k\<close>.\<close>

fun np_diff :: "real list \<Rightarrow> real list" where
  "np_diff (x # y # rest) = (y - x) # np_diff (y # rest)"
| "np_diff _ = []"

section \<open>IntegrationGridOptimizer: the object's state\<close>

text \<open>
  The attributes of \<^verbatim>\<open>IntegrationGridOptimizer\<close> that the sweep reads and writes.
  \<open>m_grid\<close> is \<^verbatim>\<open>self.m_grid.__dict__\<close>, the MGRID section of the calculator that
  \<^verbatim>\<open>_update_property\<close> writes by key; the dictionaries are partial maps.
\<close>

record optimizer =
  start :: "string \<rightharpoonup> real"
  stop :: "string \<rightharpoonup> real"
  tolerance :: real
  cwd :: string
  project_name :: string
  m_grid :: "string \<rightharpoonup> real"
  loop_range :: "string \<rightharpoonup> int list"
  energy_array :: "string \<rightharpoonup> real list"
  force_array :: "string \<rightharpoonup> real list"

section \<open>The progress check\<close>

text \<open>
  \<^verbatim>\<open>_check_progress\<close> (integration_grid_optimizer.py, lines 313-339). The returned
  integer is the one the docstring describes: 1 is "continue with the analysis",
  0 is "the analysis is complete and no more computations should be performed".
  \<^verbatim>\<open>en_diff[-1] and fr_diff[-1] < self.tolerance\<close> evaluates the force
  difference only when the energy difference is truthy (non-zero).
\<close>

definition check_progress :: "string \<Rightarrow> optimizer \<Rightarrow> error + nat" where
  "check_progress optimized_parameter st =
     (case energy_array st optimized_parameter of
        None \<Rightarrow> Inl KeyError
      | Some es \<Rightarrow>
          if length es < 2 then Inr 0
          else (case force_array st optimized_parameter of
              None \<Rightarrow> Inl KeyError
            | Some fs \<Rightarrow>
                (case py_index (np_diff es) (- 1) of
                   Inl e \<Rightarrow> Inl e
                 | Inr en_last \<Rightarrow>
                     if en_last = 0 then Inr 1
                     else (case py_index (np_diff fs) (- 1) of
                         Inl e \<Rightarrow> Inl e
                       | Inr fr_last \<Rightarrow>
                           if fr_last < tolerance st then Inr 0 else Inr 1))))"

text \<open>
  \<^verbatim>\<open>CutoffOptimizer._check_progress\<close> (optimize_interaction_cutoff.py, lines
  168-184): the same test on the object's single pair of lists, here for
  scalar entries as the class docstring describes them.
\<close>

definition cutoff_check_progress :: "real \<Rightarrow> real list \<Rightarrow> real list \<Rightarrow> error + nat" where
  "cutoff_check_progress tol es fs =
     (if length es < 2 then Inr 0
      else (case py_index (np_diff es) (- 1) of
          Inl e \<Rightarrow> Inl e
        | Inr en_last \<Rightarrow>
            if en_last = 0 then Inr 1
            else (case py_index (np_diff fs) (- 1) of
                Inl e \<Rightarrow> Inl e
              | Inr fr_last \<Rightarrow> if fr_last < tol then Inr 0 else Inr 1)))"

section \<open>Reading the result file\<close>

text \<open>
  \<^verbatim>\<open>re.search(pattern, line)\<close> for the patterns of this module, none of which has
  a regular-expression metacharacter: the pattern occurs in the line.
\<close>

fun re_search :: "string \<Rightarrow> string \<Rightarrow> bool" where
  "re_search pat [] = (pat = [])"
| "re_search pat (c # cs) = (prefix pat (c # cs) \<or> re_search pat cs)"

text \<open>\<^verbatim>\<open>line.split()\<close>: the maximal runs of non-whitespace characters, in order.\<close>

definition is_space :: "char \<Rightarrow> bool" where
  "is_space c = (c = CHR '' '' \<or> c = CHR 0x09 \<or> c = CHR 0x0A \<or> c = CHR 0x0B
                 \<or> c = CHR 0x0C \<or> c = CHR 0x0D)"

fun split_from :: "string \<Rightarrow> string \<Rightarrow> string list" where
  "split_from tok [] = (if tok = [] then [] else [tok])"
| "split_from tok (c # cs) =
     (if is_space c then (if tok = [] then split_from [] cs else tok # split_from [] cs)
      else split_from (tok @ [c]) cs)"

definition py_split :: "string \<Rightarrow> string list" where
  "py_split line = split_from [] line"

text \<open>
  \<^verbatim>\<open>_read_energy\<close> (lines 169-194). \<open>f_object\<close> is the list of lines from the
  current position of the file object; \<open>to_float\<close> is Python's \<^verbatim>\<open>float\<close> on a
  token, \<open>None\<close> where it raises \<^verbatim>\<open>ValueError\<close>. Every matching line is
  converted as it is met; \<^verbatim>\<open>sys.exit(1)\<close> follows when none matched.
\<close>

fun read_energy_loop ::
  "(string \<Rightarrow> real option) \<Rightarrow> string list \<Rightarrow> real option \<Rightarrow> error + real option" where
  "read_energy_loop to_float [] energy = Inr energy"
| "read_energy_loop to_float (line # rest) energy =
     (if re_search ''Total FORCE_EVAL'' line then
        (case py_index (py_split line) (- 1) of
           Inl e \<Rightarrow> Inl e
         | Inr tok \<Rightarrow>
             (case to_float tok of
                None \<Rightarrow> Inl ValueError
              | Some v \<Rightarrow> read_energy_loop to_float rest (Some v)))
      else read_energy_loop to_float rest energy)"

definition read_energy :: "(string \<Rightarrow> real option) \<Rightarrow> string list \<Rightarrow> error + real" where
  "read_energy to_float f_object =
     (case read_energy_loop to_float f_object None of
        Inl e \<Rightarrow> Inl e
      | Inr None \<Rightarrow> Inl SystemExit
      | Inr (Some energy) \<Rightarrow> Inr energy)"

text \<open>
  \<^verbatim>\<open>_read_forces\<close> (lines 196-230). The first loop binds the locals \<open>start\<close> and
  \<open>stop\<close> only on a matching line (\<open>None\<close> is "not bound"); the second loop reads
  them, and reading an unbound local raises \<^verbatim>\<open>UnboundLocalError\<close>.
\<close>

definition pattern_1 :: string where
  "pattern_1 = ''# Atom   Kind   Element          X              Y              Z''"

definition pattern_2 :: string where
  "pattern_2 = ''SUM OF ATOMIC FORCES''"

fun find_markers ::
  "nat \<Rightarrow> string list \<Rightarrow> nat option \<times> int option \<Rightarrow> nat option \<times> int option" where
  "find_markers i [] bound = bound"
| "find_markers i (line # rest) (start_line, stop_line) =
     (if re_search pattern_1 line then find_markers (Suc i) rest (Some (i + 1), stop_line)
      else if re_search pattern_2 line then
        find_markers (Suc i) rest (start_line, Some (int i - 1))
      else find_markers (Suc i) rest (start_line, stop_line))"

fun convert_all :: "(string \<Rightarrow> real option) \<Rightarrow> string list \<Rightarrow> error + real list" where
  "convert_all to_float [] = Inr []"
| "convert_all to_float (tok # toks) =
     (case to_float tok of
        None \<Rightarrow> Inl ValueError
      | Some v \<Rightarrow>
          (case convert_all to_float toks of Inl e \<Rightarrow> Inl e | Inr vs \<Rightarrow> Inr (v # vs)))"

text \<open>\<^verbatim>\<open>np.linalg.norm(np.array(line.split())[3:].astype(float))\<close>\<close>

definition row_norm :: "(string \<Rightarrow> real option) \<Rightarrow> string \<Rightarrow> error + real" where
  "row_norm to_float line =
     (case convert_all to_float (drop 3 (py_split line)) of
        Inl e \<Rightarrow> Inl e
      | Inr vs \<Rightarrow> Inr (sqrt (sum_list (map (\<lambda>v. v * v) vs))))"

text \<open>
  The second loop. The result carries the accumulated \<open>force\<close> and whether a row
  was added to it (it is then a NumPy float, no longer the Python float 0.0).
\<close>

fun sum_forces ::
  "(string \<Rightarrow> real option) \<Rightarrow> nat option \<Rightarrow> int option \<Rightarrow> nat \<Rightarrow> string list \<Rightarrow>
     real \<times> bool \<Rightarrow> error + real \<times> bool" where
  "sum_forces to_float start_line stop_line i [] acc = Inr acc"
| "sum_forces to_float start_line stop_line i (line # rest) (force, added) =
     (case start_line of
        None \<Rightarrow> Inl UnboundLocalError
      | Some s \<Rightarrow>
          if i < s then sum_forces to_float start_line stop_line (Suc i) rest (force, added)
          else (case stop_line of
              None \<Rightarrow> Inl UnboundLocalError
            | Some e \<Rightarrow>
                if int i \<le> e then
                  (case row_norm to_float line of
                     Inl err \<Rightarrow> Inl err
                   | Inr n \<Rightarrow>
                       sum_forces to_float start_line stop_line (Suc i) rest (force + n, True))
                else Inr (force, added)))"

text \<open>
  \<^verbatim>\<open>force/n_atoms\<close>: the Python float 0.0 divided by 0 raises
  \<^verbatim>\<open>ZeroDivisionError\<close>; a NumPy float divided by 0 is \<^verbatim>\<open>inf\<close> or \<^verbatim>\<open>nan\<close>, which
  is no real number: the model ends there with \<open>NonFinite\<close>.
\<close>

definition read_forces ::
  "(string \<Rightarrow> real option) \<Rightarrow> string list \<Rightarrow> int \<Rightarrow> error + real" where
  "read_forces to_float f_object n_atoms =
     (case find_markers 0 f_object (None, None) of
        (start_line, stop_line) \<Rightarrow>
          (case sum_forces to_float start_line stop_line 0 f_object (0, False) of
             Inl e \<Rightarrow> Inl e
           | Inr (force, added) \<Rightarrow>
               if n_atoms = 0 then (if added then Inl NonFinite else Inl ZeroDivisionError)
               else Inr (force / real_of_int n_atoms)))"

section \<open>Finding and reading the result file\<close>

text \<open>
  What the process sees of the file system after a run: \<open>entries\<close> are the files a
  \<^verbatim>\<open>glob\<close> of a directory meets, each as the directory prefix under which
  \<^verbatim>\<open>glob\<close> reports it and the file name; \<open>read_lines\<close> gives the lines of the
  file at a path (\<open>None\<close>: \<^verbatim>\<open>open\<close> raises).
\<close>

record filesystem =
  entries :: "string \<Rightarrow> (string \<times> string) list"
  read_lines :: "string \<rightharpoonup> string list"

text \<open>\<^verbatim>\<open>fnmatch\<close> of a file name against \<^verbatim>\<open>*.xyz\<close>; \<^verbatim>\<open>glob\<close> skips hidden names.\<close>

definition matches_xyz :: "string \<Rightarrow> bool" where
  "matches_xyz name = (suffix ''.xyz'' name \<and> \<not> prefix ''.'' name)"

definition os_path_join :: "string \<Rightarrow> string \<Rightarrow> string" where
  "os_path_join d name =
     (if d = [] then name else if suffix ''/'' d then d @ name else d @ ''/'' @ name)"

text \<open>\<^verbatim>\<open>glob.glob(f"{self.cwd}/*.xyz")\<close>\<close>

definition glob_xyz :: "filesystem \<Rightarrow> string \<Rightarrow> string list" where
  "glob_xyz fs d =
     map (\<lambda>(pre, name). os_path_join pre name)
       (filter (\<lambda>(pre, name). matches_xyz name) (entries fs d))"

text \<open>\<^verbatim>\<open>_get_force_file\<close> (lines 151-167)\<close>

definition get_force_file :: "filesystem \<Rightarrow> optimizer \<Rightarrow> error + string" where
  "get_force_file fs st =
     (let force_file = project_name st @ ''.out'';
          files = glob_xyz fs (cwd st)
      in if force_file \<notin> set files then Inl SystemExit else Inr force_file)"

text \<open>
  \<^verbatim>\<open>_fetch_properties\<close> (lines 232-247). \<open>to_int\<close> is Python's \<^verbatim>\<open>int\<close> on a token.
  \<^verbatim>\<open>readline\<close> consumes the first line, so \<^verbatim>\<open>_read_energy\<close> iterates over the
  lines after it; \<^verbatim>\<open>_read_energy\<close> rewinds, so \<^verbatim>\<open>_read_forces\<close> sees them all.
\<close>

definition fetch_properties ::
  "(string \<Rightarrow> real option) \<Rightarrow> (string \<Rightarrow> int option) \<Rightarrow> filesystem \<Rightarrow> optimizer \<Rightarrow>
     error + real \<times> real" where
  "fetch_properties to_float to_int fs st =
     (case get_force_file fs st of
        Inl e \<Rightarrow> Inl e
      | Inr force_file \<Rightarrow>
          (case read_lines fs force_file of
             None \<Rightarrow> Inl FileNotFoundError
           | Some f_object \<Rightarrow>
               (case py_index (py_split (case f_object of [] \<Rightarrow> [] | l # _ \<Rightarrow> l)) 0 of
                  Inl e \<Rightarrow> Inl e
                | Inr tok \<Rightarrow>
                    (case to_int tok of
                       None \<Rightarrow> Inl ValueError
                     | Some n_atoms \<Rightarrow>
                         (case read_energy to_float (tl f_object) of
                            Inl e \<Rightarrow> Inl e
                          | Inr energy \<Rightarrow>
                              (case read_forces to_float f_object n_atoms of
                                 Inl e \<Rightarrow> Inl e
                               | Inr force \<Rightarrow> Inr (energy, force)))))))"

section \<open>The sweep\<close>

text \<open>
  \<^verbatim>\<open>_update_property\<close> (lines 249-265): every item of the dictionary, in its
  order, is written into \<^verbatim>\<open>self.m_grid.__dict__\<close>.
\<close>

fun update_property :: "(string \<times> real) list \<Rightarrow> optimizer \<Rightarrow> optimizer" where
  "update_property [] st = st"
| "update_property ((item, v) # updater) st =
     update_property updater (st\<lparr>m_grid := (m_grid st)(item \<mapsto> v)\<rparr>)"

text \<open>
  \<^verbatim>\<open>_update_property_arrays\<close> (lines 278-293). \<open>fetched\<close> is what
  \<^verbatim>\<open>self._fetch_properties()\<close> gave for the run just made; both lists are looked
  up by key before \<^verbatim>\<open>append\<close>, and a missing key raises \<^verbatim>\<open>KeyError\<close>.
\<close>

definition update_property_arrays ::
  "error + real \<times> real \<Rightarrow> string \<Rightarrow> optimizer \<Rightarrow> error + optimizer" where
  "update_property_arrays fetched optimized_parameter st =
     (case fetched of
        Inl e \<Rightarrow> Inl e
      | Inr (energy, force) \<Rightarrow>
          (case energy_array st optimized_parameter of
             None \<Rightarrow> Inl KeyError
           | Some es \<Rightarrow>
               (case force_array st optimized_parameter of
                  None \<Rightarrow> Inl KeyError
                | Some fs \<Rightarrow>
                    Inr (st\<lparr>energy_array := (energy_array st)(optimized_parameter \<mapsto> es @ [energy]),
                            force_array := (force_array st)(optimized_parameter \<mapsto> fs @ [force])\<rparr>))))"

text \<open>
  \<^verbatim>\<open>_perform_loop_operation\<close> (lines 295-311). \<open>run\<close> stands for the external
  calculation and the reading of its result: from the object as configured for
  this candidate to what \<^verbatim>\<open>_fetch_properties\<close> returns after
  \<^verbatim>\<open>_perform_energy_force_calculation\<close>.
\<close>

definition perform_loop_operation ::
  "(optimizer \<Rightarrow> error + real \<times> real) \<Rightarrow> (string \<times> real) list \<Rightarrow> optimizer \<Rightarrow>
     error + optimizer" where
  "perform_loop_operation run optimized_parameter st =
     (let st1 = update_property optimized_parameter st
      in case py_index (map fst optimized_parameter) 0 of
           Inl e \<Rightarrow> Inl e
         | Inr key \<Rightarrow> update_property_arrays (run st1) key st1)"

text \<open>
  The loop shared by \<^verbatim>\<open>_run_cutoff_optimization\<close>,
  \<^verbatim>\<open>_run_rel_cutoff_optimization\<close> and \<^verbatim>\<open>_run_n_grids_optimization\<close> (lines
  351-393): \<open>name\<close> is the key the candidate and the histories are stored under,
  \<open>checked\<close> the key handed to \<^verbatim>\<open>_check_progress\<close>. On any result other than 1
  the body writes \<^verbatim>\<open>self.energy_array[name][-2]\<close> under \<open>name\<close> and breaks.
\<close>

fun optimization_loop ::
  "(optimizer \<Rightarrow> error + real \<times> real) \<Rightarrow> string \<Rightarrow> string \<Rightarrow> int list \<Rightarrow> optimizer \<Rightarrow>
     error + optimizer" where
  "optimization_loop run name checked [] st = Inr st"
| "optimization_loop run name checked (item # rest) st =
     (case perform_loop_operation run [(name, real_of_int item)] st of
        Inl e \<Rightarrow> Inl e
      | Inr st1 \<Rightarrow>
          (case check_progress checked st1 of
             Inl e \<Rightarrow> Inl e
           | Inr outcome \<Rightarrow>
               if outcome = 1 then optimization_loop run name checked rest st1
               else (case energy_array st1 name of
                   None \<Rightarrow> Inl KeyError
                 | Some es \<Rightarrow>
                     (case py_index es (- 2) of
                        Inl e \<Rightarrow> Inl e
                      | Inr v \<Rightarrow> Inr (update_property [(name, v)] st1)))))"

definition run_stage ::
  "(optimizer \<Rightarrow> error + real \<times> real) \<Rightarrow> string \<Rightarrow> string \<Rightarrow> optimizer \<Rightarrow> error + optimizer" where
  "run_stage run name checked st =
     (case loop_range st name of
        None \<Rightarrow> Inl KeyError
      | Some items \<Rightarrow> optimization_loop run name checked items st)"

definition run_cutoff_optimization ::
  "(optimizer \<Rightarrow> error + real \<times> real) \<Rightarrow> optimizer \<Rightarrow> error + optimizer" where
  "run_cutoff_optimization run st = run_stage run ''Cutoff'' ''Cutoff'' st"

definition run_rel_cutoff_optimization ::
  "(optimizer \<Rightarrow> error + real \<times> real) \<Rightarrow> optimizer \<Rightarrow> error + optimizer" where
  "run_rel_cutoff_optimization run st = run_stage run ''Rel_cutoff'' ''Rel_cutoff'' st"

text \<open>Line 389 hands \<^verbatim>\<open>'nNrids'\<close> to \<^verbatim>\<open>_check_progress\<close>.\<close>

definition run_n_grids_optimization ::
  "(optimizer \<Rightarrow> error + real \<times> real) \<Rightarrow> optimizer \<Rightarrow> error + optimizer" where
  "run_n_grids_optimization run st = run_stage run ''Ngrids'' ''nNrids'' st"


section \<open>Candidate ranges and the optimizer\<close>

text \<open>
  \<^verbatim>\<open>np.linspace(start, stop, num, dtype=int)\<close>: \<open>num\<close> evenly spaced samples with
  both ends included, the last one set to \<open>stop\<close> itself, each rounded down to
  an integer. The spacing is computed exactly here.
\<close>

definition np_linspace :: "real \<Rightarrow> real \<Rightarrow> nat \<Rightarrow> int list" where
  "np_linspace a b num =
     (if num = 0 then []
      else if num = 1 then [\<lfloor>a\<rfloor>]
      else map (\<lambda>i. \<lfloor>a + real i * ((b - a) / real (num - 1))\<rfloor>) [0..<num - 1] @ [\<lfloor>b\<rfloor>])"

text \<open>\<^verbatim>\<open>_get_static_range\<close> (lines 140-149): a missing key of \<open>start\<close> or \<open>stop\<close> raises.\<close>

definition static_range :: "optimizer \<Rightarrow> string \<Rightarrow> nat \<Rightarrow> error + optimizer" where
  "static_range st name num =
     (case start st name of
        None \<Rightarrow> Inl KeyError
      | Some a \<Rightarrow>
          (case stop st name of
             None \<Rightarrow> Inl KeyError
           | Some b \<Rightarrow>
               Inr (st\<lparr>loop_range := (loop_range st)(name \<mapsto> np_linspace a b num)\<rparr>)))"

definition get_static_range :: "optimizer \<Rightarrow> error + optimizer" where
  "get_static_range st =
     (case static_range st ''Cutoff'' 10 of
        Inl e \<Rightarrow> Inl e
      | Inr st1 \<Rightarrow>
          (case static_range st1 ''Rel_cutoff'' 10 of
             Inl e \<Rightarrow> Inl e
           | Inr st2 \<Rightarrow> static_range st2 ''Ngrids'' 4))"

text \<open>\<^verbatim>\<open>CutoffOptimizer._get_static_range\<close> (optimize_interaction_cutoff.py, line 114)\<close>

definition cutoff_get_static_range :: "real \<Rightarrow> real \<Rightarrow> int list" where
  "cutoff_get_static_range a b = np_linspace a b 10"

text \<open>\<^verbatim>\<open>_set_defaults_parameters\<close> (lines 395-404)\<close>

definition set_defaults_parameters :: "optimizer \<Rightarrow> error + optimizer" where
  "set_defaults_parameters st =
     (case loop_range st ''Rel_cutoff'' of
        None \<Rightarrow> Inl KeyError
      | Some rs \<Rightarrow>
          (case py_index rs 0 of
             Inl e \<Rightarrow> Inl e
           | Inr r \<Rightarrow>
               (case loop_range st ''Ngrids'' of
                  None \<Rightarrow> Inl KeyError
                | Some ns \<Rightarrow>
                    (case py_index ns 0 of
                       Inl e \<Rightarrow> Inl e
                     | Inr n \<Rightarrow>
                         Inr (update_property
                                [(''Rel_cutoff'', real_of_int r), (''Ngrids'', real_of_int n)] st)))))"

text \<open>
  \<^verbatim>\<open>run_optimizer\<close> (lines 428-444). \<^verbatim>\<open>_build_cell\<close> only talks to the external
  calculator and leaves the modelled attributes alone.
\<close>

definition run_optimizer ::
  "(optimizer \<Rightarrow> error + real \<times> real) \<Rightarrow> optimizer \<Rightarrow> error + optimizer" where
  "run_optimizer run st =
     (case get_static_range st of
        Inl e \<Rightarrow> Inl e
      | Inr st1 \<Rightarrow>
          (case set_defaults_parameters st1 of
             Inl e \<Rightarrow> Inl e
           | Inr st2 \<Rightarrow>
               (case run_cutoff_optimization run st2 of
                  Inl e \<Rightarrow> Inl e
                | Inr st3 \<Rightarrow>
                    (case run_rel_cutoff_optimization run st3 of
                       Inl e \<Rightarrow> Inl e
                     | Inr st4 \<Rightarrow> run_n_grids_optimization run st4))))"

text \<open>
  The program as it runs: after each candidate is configured, the external
  engine leaves a file system behind (\<open>engine\<close>), and the sample is what
  \<^verbatim>\<open>_fetch_properties\<close> reads from it.
\<close>

definition engine_run ::
  "(string \<Rightarrow> real option) \<Rightarrow> (string \<Rightarrow> int option) \<Rightarrow> (optimizer \<Rightarrow> filesystem) \<Rightarrow>
     optimizer \<Rightarrow> error + real \<times> real" where
  "engine_run to_float to_int engine st = fetch_properties to_float to_int (engine st) st"

text \<open>
  \<^verbatim>\<open>__init__\<close> (lines 54-112) for dictionary arguments: \<open>None\<close> takes the default;
  a string for \<open>stop\<close> or a missing template ends the process. \<open>mgrid\<close> is the
  MGRID section parsed from the template. Both histories start as \<^verbatim>\<open>{}\<close>.
\<close>

datatype stop_argument = StopDict "string \<rightharpoonup> real" | StopStr string

definition init ::
  "(string \<rightharpoonup> real) option \<Rightarrow> stop_argument option \<Rightarrow> string option \<Rightarrow> real \<Rightarrow> string \<Rightarrow>
     string \<Rightarrow> (string \<rightharpoonup> real) \<Rightarrow> error + optimizer" where
  "init start_arg stop_arg template_file tol dir project mgrid =
     (let start_d = (case start_arg of
                       None \<Rightarrow> [''Cutoff'' \<mapsto> 100, ''Ngrids'' \<mapsto> 5, ''Rel_cutoff'' \<mapsto> 60]
                     | Some d \<Rightarrow> d);
          stop_d = (case stop_arg of
                      None \<Rightarrow> StopDict [''Cutoff'' \<mapsto> 1500, ''Ngrids'' \<mapsto> 8, ''Rel_cutoff'' \<mapsto> 120]
                    | Some d \<Rightarrow> d)
      in case stop_d of
           StopStr s \<Rightarrow> Inl SystemExit
         | StopDict d \<Rightarrow>
             (case template_file of
                None \<Rightarrow> Inl SystemExit
              | Some t \<Rightarrow>
                  Inr \<lparr>start = start_d, stop = d, tolerance = tol, cwd = dir,
                       project_name = project, m_grid = mgrid, loop_range = Map.empty,
                       energy_array = Map.empty, force_array = Map.empty\<rparr>))"

section \<open>CutoffOptimizer: the single sweep\<close>

text \<open>
  \<^verbatim>\<open>CutoffOptimizer.run_optimizer\<close> (optimize_interaction_cutoff.py, lines
  205-224) on the pair of lists \<^verbatim>\<open>(energy_array, force_array)\<close>; \<open>scf\<close> is the
  external calculation for a cutoff.
\<close>

fun cutoff_loop ::
  "(int \<Rightarrow> real \<times> real) \<Rightarrow> real \<Rightarrow> int list \<Rightarrow> real list \<times> real list \<Rightarrow>
     error + real list \<times> real list" where
  "cutoff_loop scf tol [] arrays = Inr arrays"
| "cutoff_loop scf tol (item # rest) (es, fs) =
     (let es1 = es @ [fst (scf item)]; fs1 = fs @ [snd (scf item)]
      in case cutoff_check_progress tol es1 fs1 of
           Inl e \<Rightarrow> Inl e
         | Inr outcome \<Rightarrow>
             if outcome = 1 then cutoff_loop scf tol rest (es1, fs1) else Inr (es1, fs1))"

definition cutoff_run_optimizer ::
  "(int \<Rightarrow> real \<times> real) \<Rightarrow> real \<Rightarrow> real \<Rightarrow> real \<Rightarrow> error + real list \<times> real list" where
  "cutoff_run_optimizer scf tol a b = cutoff_loop scf tol (cutoff_get_static_range a b) ([], [])"

text \<open>What is asked of a candidate list of \<open>num\<close> values between \<open>a\<close> and \<open>b\<close>.\<close>

definition candidates_ok :: "int list \<Rightarrow> nat \<Rightarrow> real \<Rightarrow> real \<Rightarrow> bool" where
  "candidates_ok cs num a b =
     (length cs = num \<and> sorted cs \<and> hd cs = \<lfloor>a\<rfloor> \<and> last cs = \<lfloor>b\<rfloor>)"

text \<open>
  Python's \<^verbatim>\<open>float\<close> on plain decimal literals (an optional sign, digits, an
  optional point and digits), used where a concrete conversion is needed; the
  functions above take the conversion as a parameter.
\<close>

definition digit_of :: "char \<Rightarrow> nat option" where
  "digit_of c =
     (let code = (of_char c :: nat)
      in if 48 \<le> code \<and> code \<le> 57 then Some (code - 48) else None)"

fun digits_value :: "string \<Rightarrow> nat \<Rightarrow> nat option" where
  "digits_value [] acc = Some acc"
| "digits_value (c # cs) acc =
     (case digit_of c of None \<Rightarrow> None | Some d \<Rightarrow> digits_value cs (10 * acc + d))"

definition unsigned_literal :: "string \<Rightarrow> real option" where
  "unsigned_literal s =
     (let whole = takeWhile (\<lambda>c. c \<noteq> CHR ''.'') s;
          frac = drop 1 (dropWhile (\<lambda>c. c \<noteq> CHR ''.'') s)
      in if whole = [] \<and> frac = [] then None
         else (case digits_value whole 0 of
             None \<Rightarrow> None
           | Some w \<Rightarrow>
               (case digits_value frac 0 of
                  None \<Rightarrow> None
                | Some f \<Rightarrow> Some (real w + real f / 10 ^ length frac))))"

definition float_literal :: "string \<Rightarrow> real option" where
  "float_literal s =
     (case s of
        [] \<Rightarrow> None
      | c # cs \<Rightarrow>
          if c = CHR ''-'' then map_option uminus (unsigned_literal cs)
          else if c = CHR ''+'' then unsigned_literal cs
          else unsigned_literal s)"

text \<open>
  The lines \<^verbatim>\<open>_read_energy\<close> takes an energy from, the value it converts on
  such a line, and the condition that each of them in a list converts.
\<close>

definition energy_line :: "string \<Rightarrow> bool" where
  "energy_line line = re_search ''Total FORCE_EVAL'' line"

definition trailing_float :: "(string \<Rightarrow> real option) \<Rightarrow> string \<Rightarrow> real option" where
  "trailing_float to_float line =
     (case py_index (py_split line) (- 1) of Inl e \<Rightarrow> None | Inr tok \<Rightarrow> to_float tok)"

definition energy_lines_convert :: "(string \<Rightarrow> real option) \<Rightarrow> string list \<Rightarrow> bool" where
  "energy_lines_convert to_float ls =
     list_all (\<lambda>line. trailing_float to_float line \<noteq> None) (filter energy_line ls)"

section \<open>Concrete inputs\<close>

text \<open>
  The object \<^verbatim>\<open>IntegrationGridOptimizer(template_file="template.inp")\<close> leaves
  its constructor as, for a template without MGRID entries.
\<close>

definition fresh :: optimizer where
  "fresh = \<lparr>start = [''Cutoff'' \<mapsto> 100, ''Ngrids'' \<mapsto> 5, ''Rel_cutoff'' \<mapsto> 60],
            stop = [''Cutoff'' \<mapsto> 1500, ''Ngrids'' \<mapsto> 8, ''Rel_cutoff'' \<mapsto> 120],
            tolerance = 2 / 1000, cwd = ''./'', project_name = ''optimization'',
            m_grid = Map.empty, loop_range = Map.empty,
            energy_array = Map.empty, force_array = Map.empty\<rparr>"

text \<open>The same object with a history of three samples recorded for the cutoff.\<close>

definition three_samples :: optimizer where
  "three_samples =
     fresh\<lparr>energy_array := [''Cutoff'' \<mapsto> [1, 2, 4]],
           force_array := [''Cutoff'' \<mapsto> [5 / 10, 4 / 10, 3999 / 10000]]\<rparr>"

text \<open>The constructed object with the two lists of one parameter put in place.\<close>

definition with_history :: "string \<Rightarrow> real list \<Rightarrow> real list \<Rightarrow> optimizer" where
  "with_history name es fs =
     fresh\<lparr>energy_array := [name \<mapsto> es], force_array := [name \<mapsto> fs]\<rparr>"

text \<open>
  An engine whose samples for the cutoffs 100, 200, 300, 400 have energies 1, 2,
  3, 4 and mean forces 0.5, 0.6, 0.6005, 0.6006: the force difference first
  falls below the tolerance 0.002 at the third candidate.
\<close>

definition example_run :: "optimizer \<Rightarrow> error + real \<times> real" where
  "example_run st =
     (if m_grid st ''Cutoff'' = Some 100 then Inr (1, 5 / 10)
      else if m_grid st ''Cutoff'' = Some 200 then Inr (2, 6 / 10)
      else if m_grid st ''Cutoff'' = Some 300 then Inr (3, 6005 / 10000)
      else Inr (4, 6006 / 10000))"


text \<open>Two artifacts for \<^verbatim>\<open>_read_energy\<close>.\<close>

definition two_energy_lines :: "string list" where
  "two_energy_lines = [''Total FORCE_EVAL abc'', ''Total FORCE_EVAL 1.5'']"

definition energy_artifact :: "string list" where
  "energy_artifact =
     ['' MODULE QUICKSTEP'',
      '' ENERGY| Total FORCE_EVAL ( QS ) energy [a.u.]:  -17.5'',
      '' ATOMIC FORCES in [a.u.]'',
      '' ENERGY| Total FORCE_EVAL ( QS ) energy [a.u.]:  -17.25'',
      '' SUM OF ATOMIC FORCES  0.0  0.0  0.0  0.0'']"

text \<open>
  Lines on which neither search of \<^verbatim>\<open>_read_forces\<close> succeeds, and an artifact
  for two atoms whose force rows have the norms 5 and 2.
\<close>

definition marker_free :: "string list \<Rightarrow> bool" where
  "marker_free ls =
     (filter (\<lambda>line. re_search pattern_1 line \<or> re_search pattern_2 line) ls = [])"

definition force_artifact :: "string list" where
  "force_artifact =
     [''2'',
      '' ATOMIC FORCES in [a.u.]'',
      '' # Atom   Kind   Element          X              Y              Z'',
      ''      1      1      O           3.0     4.0     0.0'',
      ''      2      2      H           0.0     0.0    -2.0'',
      '' SUM OF ATOMIC FORCES           3.0     4.0    -2.0     5.4'',
      '' ENERGY| Total FORCE_EVAL ( QS ) energy [a.u.]:  -17.25'']"

text \<open>
  An object in the middle of a run: one sample already recorded for the cutoff,
  and values for the other two parameters in \<^verbatim>\<open>m_grid\<close>.
\<close>

definition seeded :: optimizer where
  "seeded = (with_history ''Cutoff'' [0] [4 / 10])
              \<lparr>m_grid := [''Rel_cutoff'' \<mapsto> 60, ''Ngrids'' \<mapsto> 5]\<rparr>"


section \<open>Facts about the helpers\<close>

lemma length_np_diff: "length (np_diff xs) = length xs - 1"
  by (induction xs rule: np_diff.induct) auto

lemma np_diff_snoc2: "np_diff (ys @ [a, b]) = np_diff (ys @ [a]) @ [b - a]"
  by (induction ys rule: np_diff.induct) simp_all

lemma py_index_last:
  "xs \<noteq> [] \<Longrightarrow> py_index xs (- 1) = Inr (last xs)"
  by (cases xs rule: rev_cases) (simp_all add: py_index_def nth_append)

lemma two_or_more_snoc2:
  assumes "2 \<le> length xs"
  shows "xs = butlast (butlast xs) @ [last (butlast xs), last xs]"
proof -
  from assms have "xs \<noteq> []" by auto
  then have a: "xs = butlast xs @ [last xs]" by simp
  from assms have "butlast xs \<noteq> []" by (cases xs) auto
  then have "butlast xs = butlast (butlast xs) @ [last (butlast xs)]" by simp
  with a show ?thesis by (metis append_Cons append_Nil append_assoc)
qed

lemma np_diff_last:
  assumes "2 \<le> length xs"
  shows "py_index (np_diff xs) (- 1) = Inr (last xs - last (butlast xs))"
proof -
  obtain ys a b where xs: "xs = ys @ [a, b]" and a: "a = last (butlast xs)" and b: "b = last xs"
    using two_or_more_snoc2 [OF assms] by blast
  have "np_diff xs = np_diff (ys @ [a]) @ [b - a]"
    unfolding xs by (rule np_diff_snoc2)
  then show ?thesis by (simp add: py_index_last a b)
qed

lemma xyz_not_out: "suffix ''.xyz'' x \<Longrightarrow> x \<noteq> p @ ''.out''"
proof
  assume "suffix ''.xyz'' x" and "x = p @ ''.out''"
  then obtain q where "p @ ''.out'' = q @ ''.xyz''" by (auto simp: suffix_def)
  then have "last (p @ ''.out'') = last (q @ ''.xyz'')" by simp
  then show False by simp
qed

lemma os_path_join_suffix: "suffix s name \<Longrightarrow> suffix s (os_path_join d name)"
  by (auto simp: os_path_join_def suffix_def)

lemma glob_xyz_suffix: "f \<in> set (glob_xyz fs d) \<Longrightarrow> suffix ''.xyz'' f"
  by (auto simp: glob_xyz_def matches_xyz_def intro: os_path_join_suffix)

lemma sorted_map_upt:
  assumes "\<And>i j. i \<le> j \<Longrightarrow> j < m \<Longrightarrow> f i \<le> (f j :: int)"
  shows "sorted (map f [0..<m])"
  using assms by (auto simp: sorted_iff_nth_mono)

lemma np_linspace_props:
  assumes "2 \<le> num" and "a \<le> b"
  shows "candidates_ok (np_linspace a b num) num a b"
proof -
  define m where "m = num - 1"
  define step where "step = (b - a) / real m"
  define f where "f = (\<lambda>i. \<lfloor>a + real i * step\<rfloor>)"
  have m: "1 \<le> m" "num = Suc m" using assms(1) by (auto simp: m_def)
  have step: "0 \<le> step" using assms(2) by (simp add: step_def)
  have eq: "np_linspace a b num = map f [0..<m] @ [\<lfloor>b\<rfloor>]"
    using assms(1) by (simp add: np_linspace_def f_def step_def m_def)
  have mono: "f i \<le> f j" if "i \<le> j" for i j
    unfolding f_def using that step by (intro floor_mono add_left_mono mult_right_mono) auto
  have top: "f i \<le> \<lfloor>b\<rfloor>" if "i < m" for i
  proof -
    have "real i * step \<le> real m * step"
      using that step by (intro mult_right_mono) auto
    also have "real m * step = b - a" using m by (simp add: step_def)
    finally show ?thesis unfolding f_def by (intro floor_mono) simp
  qed
  have "sorted (map f [0..<m])" using mono by (intro sorted_map_upt) auto
  then have srt: "sorted (map f [0..<m] @ [\<lfloor>b\<rfloor>])"
    using top by (auto simp: sorted_append)
  have "[0..<m] = 0 # [1..<m]" using m by (simp add: upt_rec)
  then have hd: "hd (map f [0..<m] @ [\<lfloor>b\<rfloor>]) = \<lfloor>a\<rfloor>" by (simp add: f_def)
  show ?thesis unfolding candidates_ok_def eq using srt hd m by simp
qed


lemma static_range_Some:
  assumes "start st name = Some a" and "stop st name = Some b"
  shows "static_range st name num =
           Inr (st\<lparr>loop_range := (loop_range st)(name \<mapsto> np_linspace a b num)\<rparr>)"
  by (simp add: static_range_def assms)

lemma np_linspace_n_grids: "np_linspace 5 8 4 = [5, 6, 7, 8]"
  by (simp add: np_linspace_def upt_rec)

lemma np_linspace_cutoff:
  "np_linspace 100 1500 10 = [100, 255, 411, 566, 722, 877, 1033, 1188, 1344, 1500]"
  by (simp add: np_linspace_def upt_rec)

lemma first_candidate_stops:
  assumes "energy_array st name = Some []" and "force_array st name = Some []"
  shows "optimization_loop run name name (c # rest) st =
           (case run (update_property [(name, real_of_int c)] st) of
              Inl e \<Rightarrow> Inl e | Inr s \<Rightarrow> Inl IndexError)"
  using assms
  by (auto simp: perform_loop_operation_def update_property_arrays_def check_progress_def
        py_index_def Let_def split: sum.splits prod.splits)

lemma missing_history_raises:
  assumes "energy_array st name = None"
  shows "optimization_loop run name checked (c # rest) st =
           (case run (update_property [(name, real_of_int c)] st) of
              Inl e \<Rightarrow> Inl e | Inr s \<Rightarrow> Inl KeyError)"
  using assms
  by (auto simp: perform_loop_operation_def update_property_arrays_def
        py_index_def Let_def split: sum.splits prod.splits)

lemma cutoff_first_candidate_stops:
  "cutoff_loop scf tol (c # rest) ([], []) = Inr ([fst (scf c)], [snd (scf c)])"
  by (simp add: cutoff_check_progress_def Let_def)

lemma fetch_never_succeeds: "fetch_properties to_float to_int fs st = Inl SystemExit"
proof -
  have "project_name st @ ''.out'' \<notin> set (glob_xyz fs (cwd st))"
    using glob_xyz_suffix xyz_not_out by blast
  then show ?thesis by (simp add: fetch_properties_def get_force_file_def Let_def)
qed

lemma init_fresh:
  "init None None (Some ''template.inp'') (2 / 1000) ''./'' ''optimization'' Map.empty = Inr fresh"
  by (simp add: init_def fresh_def)

lemma get_static_range_fresh:
  "\<exists>st. get_static_range fresh = Inr st
     \<and> energy_array st = Map.empty
     \<and> loop_range st ''Cutoff'' = Some [100, 255, 411, 566, 722, 877, 1033, 1188, 1344, 1500]
     \<and> loop_range st ''Rel_cutoff'' = Some (np_linspace 60 120 10)
     \<and> loop_range st ''Ngrids'' = Some [5, 6, 7, 8]"
  by (simp add: get_static_range_def static_range_def fresh_def np_linspace_cutoff
        np_linspace_n_grids)

lemma update_property_keeps:
  "energy_array (update_property u st) = energy_array st
   \<and> force_array (update_property u st) = force_array st
   \<and> loop_range (update_property u st) = loop_range st"
  by (induction u st rule: update_property.induct) auto

lemma np_linspace_rel_hd: "py_index (np_linspace 60 120 10) 0 = Inr 60"
  by (simp add: np_linspace_def py_index_def upt_rec)

lemma update_property_arrays_appends:
  assumes "energy_array st name = Some es" and "force_array st name = Some fs"
  shows "\<exists>st'. update_property_arrays (Inr (energy, force)) name st = Inr st'
           \<and> energy_array st' name = Some (es @ [energy])
           \<and> force_array st' name = Some (fs @ [force])
           \<and> m_grid st' = m_grid st"
  by (simp add: update_property_arrays_def assms)

lemma read_energy_loop_no_match:
  "filter energy_line ls = [] \<Longrightarrow> read_energy_loop to_float ls energy = Inr energy"
  by (induction ls arbitrary: energy) (auto simp: energy_line_def split: if_splits)

lemma read_energy_loop_prefix:
  "energy_lines_convert to_float pre \<Longrightarrow>
     \<exists>e'. read_energy_loop to_float (pre @ rest) energy = read_energy_loop to_float rest e'"
proof (induction pre arbitrary: energy)
  case Nil
  then show ?case by auto
next
  case (Cons line pre)
  show ?case
  proof (cases "energy_line line")
    case False
    with Cons.prems have "energy_lines_convert to_float pre"
      by (simp add: energy_lines_convert_def)
    from Cons.IH [OF this] False show ?thesis by (simp add: energy_line_def)
  next
    case True
    with Cons.prems have rest: "energy_lines_convert to_float pre"
      and here: "trailing_float to_float line \<noteq> None"
      by (simp_all add: energy_lines_convert_def)
    from here obtain tok v where "py_index (py_split line) (- 1) = Inr tok" "to_float tok = Some v"
      by (auto simp: trailing_float_def split: sum.splits)
    then show ?thesis using True Cons.IH [OF rest, of "Some v"] by (simp add: energy_line_def)
  qed
qed

lemma float_examples:
  "float_literal ''abc'' = None" "float_literal ''1.5'' = Some (3 / 2)"
  "float_literal ''-17.25'' = Some (- 69 / 4)" "float_literal ''-17.5'' = Some (- 35 / 2)"
  by (simp_all add: float_literal_def unsigned_literal_def digit_of_def Let_def)

subsection \<open>A force table with both markers\<close>

lemma find_markers_free:
  "marker_free ls \<Longrightarrow> find_markers i ls b = b"
proof (induction ls arbitrary: i)
  case Nil
  then show ?case by simp
next
  case (Cons line ls)
  then have "marker_free ls" "\<not> re_search pattern_1 line" "\<not> re_search pattern_2 line"
    by (auto simp: marker_free_def split: if_splits)
  with Cons.IH show ?case by (cases b) simp
qed

lemma find_markers_append:
  "find_markers i (xs @ ys) b = find_markers (i + length xs) ys (find_markers i xs b)"
proof (induction xs arbitrary: i b)
  case Nil
  then show ?case by simp
next
  case (Cons x xs)
  obtain s e where b: "b = (s, e)" by (cases b)
  show ?case unfolding b using Cons.IH by simp
qed

lemma sum_forces_skip:
  "i + length xs \<le> s \<Longrightarrow>
     sum_forces to_float (Some s) e i (xs @ ys) acc =
     sum_forces to_float (Some s) e (i + length xs) ys acc"
proof (induction xs arbitrary: i)
  case Nil
  then show ?case by simp
next
  case (Cons x xs)
  obtain f a where acc: "acc = (f, a)" by (cases acc)
  from Cons.prems have "i < s" "Suc i + length xs \<le> s" by simp_all
  with Cons.IH [of "Suc i"] show ?case unfolding acc by simp
qed

lemma sum_forces_rows:
  "s \<le> i \<Longrightarrow> int (i + length rows) - 1 \<le> e \<Longrightarrow>
     map (row_norm to_float) rows = map Inr norms \<Longrightarrow>
     sum_forces to_float (Some s) (Some e) i (rows @ ys) (f, a) =
     sum_forces to_float (Some s) (Some e) (i + length rows) ys
       (f + sum_list norms, a \<or> rows \<noteq> [])"
proof (induction rows arbitrary: i norms f a)
  case Nil
  then show ?case by simp
next
  case (Cons row rows)
  from Cons.prems(3) obtain n ns where ns: "norms = n # ns" "row_norm to_float row = Inr n"
    "map (row_norm to_float) rows = map Inr ns"
    by (cases norms) auto
  from Cons.prems have i: "\<not> i < s" "int i \<le> e" "s \<le> Suc i"
    "int (Suc i + length rows) - 1 \<le> e"
    by simp_all
  have "sum_forces to_float (Some s) (Some e) i ((row # rows) @ ys) (f, a) =
        sum_forces to_float (Some s) (Some e) (Suc i) (rows @ ys) (f + n, True)"
    using i ns(2) by simp
  also have "\<dots> = sum_forces to_float (Some s) (Some e) (Suc i + length rows) ys
                     (f + n + sum_list ns, True \<or> rows \<noteq> [])"
    using i ns(3) by (intro Cons.IH) simp_all
  finally show ?case by (simp add: ns(1) add.assoc)
qed

text \<open>
  \<^verbatim>\<open>_read_forces\<close> on an artifact with exactly one start marker line and, after
  it, exactly one end marker line: when every line between the two converts to
  a force row, the result is the sum of the norms of these rows divided by
  \<^verbatim>\<open>n_atoms\<close>.
\<close>

lemma read_forces_well_formed:
  assumes "marker_free pre" and "marker_free rows" and "marker_free post"
    and "re_search pattern_1 start_line"
    and "\<not> re_search pattern_1 stop_line" and "re_search pattern_2 stop_line"
    and "map (row_norm to_float) rows = map Inr norms"
    and "n_atoms \<noteq> 0"
  shows "read_forces to_float (pre @ start_line # rows @ stop_line # post) n_atoms =
           Inr (sum_list norms / real_of_int n_atoms)"
proof -
  define s where "s = Suc (length pre)"
  define e where "e = int (length pre + length rows)"
  have "find_markers 0 (pre @ start_line # rows @ stop_line # post) (None, None) =
        find_markers (length pre) (start_line # rows @ stop_line # post) (None, None)"
    by (simp add: find_markers_append find_markers_free assms(1))
  also have "\<dots> = find_markers s (rows @ stop_line # post) (Some s, None)"
    using assms(4) by (simp add: s_def)
  also have "\<dots> = find_markers (s + length rows) (stop_line # post) (Some s, None)"
    by (simp add: find_markers_append find_markers_free assms(2))
  also have "\<dots> = find_markers (Suc (s + length rows)) post (Some s, Some e)"
    using assms(5,6) by (simp add: s_def e_def)
  also have "\<dots> = (Some s, Some e)"
    by (simp add: find_markers_free assms(3))
  finally have markers:
    "find_markers 0 (pre @ start_line # rows @ stop_line # post) (None, None) = (Some s, Some e)" .
  have "sum_forces to_float (Some s) (Some e) 0
          (pre @ start_line # rows @ stop_line # post) (0, False) =
        sum_forces to_float (Some s) (Some e) 0
          ((pre @ [start_line]) @ rows @ stop_line # post) (0, False)"
    by simp
  also have "\<dots> = sum_forces to_float (Some s) (Some e) s (rows @ stop_line # post) (0, False)"
    using sum_forces_skip [of 0 "pre @ [start_line]" s to_float "Some e"
        "rows @ stop_line # post" "(0, False)"]
    by (simp add: s_def)
  also have "\<dots> = sum_forces to_float (Some s) (Some e) (s + length rows) (stop_line # post)
                     (0 + sum_list norms, False \<or> rows \<noteq> [])"
    by (intro sum_forces_rows) (simp_all add: s_def e_def assms(7))
  also have "\<dots> = Inr (sum_list norms, rows \<noteq> [])"
    by (simp add: s_def e_def)
  finally have "sum_forces to_float (Some s) (Some e) 0
          (pre @ start_line # rows @ stop_line # post) (0, False) =
        Inr (sum_list norms, rows \<noteq> [])" .
  with markers show ?thesis using assms(8) by (simp add: read_forces_def)
qed

lemma row_norm_examples:
  "row_norm float_literal ''      1      1      O           3.0     4.0     0.0'' = Inr 5"
  "row_norm float_literal ''      2      2      H           0.0     0.0    -2.0'' = Inr 2"
proof -
  have a: "sqrt (25 :: real) = 5" by (rule real_sqrt_unique) simp_all
  have b: "sqrt (4 :: real) = 2" by (rule real_sqrt_unique) simp_all
  show "row_norm float_literal ''      1      1      O           3.0     4.0     0.0'' = Inr 5"
    by (simp add: row_norm_def py_split_def is_space_def float_literal_def unsigned_literal_def
          digit_of_def Let_def a)
  show "row_norm float_literal ''      2      2      H           0.0     0.0    -2.0'' = Inr 2"
    by (simp add: row_norm_def py_split_def is_space_def float_literal_def unsigned_literal_def
          digit_of_def Let_def b)
qed

text \<open>On the artifact for two atoms with row norms 5 and 2 the mean force is 3.5.\<close>

lemma read_forces_well_formed_example:
  "read_forces float_literal force_artifact 2 = Inr (7 / 2)"
proof -
  have split: "force_artifact =
     take 2 force_artifact @ force_artifact ! 2 # (take 2 (drop 3 force_artifact))
       @ force_artifact ! 5 # drop 6 force_artifact"
    by (simp add: force_artifact_def)
  have 1: "marker_free (take 2 force_artifact)"
    by (simp add: force_artifact_def marker_free_def pattern_1_def pattern_2_def)
  have 2: "marker_free (take 2 (drop 3 force_artifact))"
    by (simp add: force_artifact_def marker_free_def pattern_1_def pattern_2_def)
  have 3: "marker_free (drop 6 force_artifact)"
    by (simp add: force_artifact_def marker_free_def pattern_1_def pattern_2_def)
  have 4: "re_search pattern_1 (force_artifact ! 2)"
    by (simp add: force_artifact_def pattern_1_def)
  have 5: "\<not> re_search pattern_1 (force_artifact ! 5)"
    by (simp add: force_artifact_def pattern_1_def)
  have 6: "re_search pattern_2 (force_artifact ! 5)"
    by (simp add: force_artifact_def pattern_2_def)
  have 7: "map (row_norm float_literal) (take 2 (drop 3 force_artifact)) = map Inr [5, 2]"
    by (simp add: force_artifact_def row_norm_examples)
  show ?thesis
    using read_forces_well_formed [OF 1 2 3 4 5 6 7, of 2] split by simp
qed

subsection \<open>What a stage leaves untouched\<close>

lemma perform_loop_operation_frame:
  assumes "perform_loop_operation run [(name, v)] st = Inr st1" and "k \<noteq> name"
  shows "m_grid st1 k = m_grid st k \<and> energy_array st1 k = energy_array st k
         \<and> force_array st1 k = force_array st k \<and> loop_range st1 = loop_range st"
  using assms
  by (auto simp: perform_loop_operation_def update_property_arrays_def py_index_def Let_def
        split: sum.splits option.splits prod.splits)

text \<open>
  A stage that ends normally has changed \<^verbatim>\<open>m_grid\<close>, \<^verbatim>\<open>energy_array\<close> and
  \<^verbatim>\<open>force_array\<close> under its own parameter name only: what an earlier stage
  wrote under another name is still there.
\<close>

lemma stage_writes_only_its_key:
  assumes "optimization_loop run name checked items st = Inr st'" and "k \<noteq> name"
  shows "m_grid st' k = m_grid st k \<and> energy_array st' k = energy_array st k
         \<and> force_array st' k = force_array st k \<and> loop_range st' = loop_range st"
  using assms
proof (induction items arbitrary: st)
  case Nil
  then show ?case by simp
next
  case (Cons item items)
  from Cons.prems(1) obtain st1 outcome where
    p: "perform_loop_operation run [(name, real_of_int item)] st = Inr st1" and
    c: "check_progress checked st1 = Inr outcome"
    by (auto split: sum.splits)
  note f = perform_loop_operation_frame [OF p Cons.prems(2)]
  show ?case
  proof (cases "outcome = 1")
    case True
    with Cons.prems(1) p c have "optimization_loop run name checked items st1 = Inr st'"
      by simp
    from Cons.IH [OF this Cons.prems(2)] f show ?thesis by simp
  next
    case False
    with Cons.prems(1) p c obtain v where "st' = update_property [(name, v)] st1"
      by (auto split: option.splits sum.splits)
    with f Cons.prems(2) show ?thesis by simp
  qed
qed

text \<open>
  From the object with one earlier sample the cutoff stage stops at the third
  candidate, stores 2 under \<^verbatim>\<open>Cutoff\<close> and keeps the other two entries.
\<close>

lemma stage_writes_only_its_key_example:
  "\<exists>st'. optimization_loop example_run ''Cutoff'' ''Cutoff'' [100, 200, 300, 400] seeded = Inr st'
     \<and> m_grid st' ''Cutoff'' = Some 2
     \<and> m_grid st' ''Rel_cutoff'' = Some 60 \<and> m_grid st' ''Ngrids'' = Some 5"
proof -
  have run: "\<exists>st'. optimization_loop example_run ''Cutoff'' ''Cutoff'' [100, 200, 300, 400] seeded
               = Inr st' \<and> m_grid st' ''Cutoff'' = Some 2"
    by (simp add: seeded_def with_history_def example_run_def fresh_def
          perform_loop_operation_def update_property_arrays_def check_progress_def
          py_index_def Let_def)
  then obtain st' where st':
    "optimization_loop example_run ''Cutoff'' ''Cutoff'' [100, 200, 300, 400] seeded = Inr st'"
    "m_grid st' ''Cutoff'' = Some 2"
    by blast
  have "m_grid st' ''Rel_cutoff'' = m_grid seeded ''Rel_cutoff''"
       "m_grid st' ''Ngrids'' = m_grid seeded ''Ngrids''"
    using stage_writes_only_its_key [OF st'(1), of "''Rel_cutoff''"]
      stage_writes_only_its_key [OF st'(1), of "''Ngrids''"]
    by simp_all
  then have "m_grid st' ''Rel_cutoff'' = Some 60" "m_grid st' ''Ngrids'' = Some 5"
    by (simp_all add: seeded_def)
  with st' show ?thesis by blast
qed

text \<open>With the two lists present, one run appends one sample to each.\<close>

lemma update_property_arrays_appends_example:
  "\<exists>st'. update_property_arrays (Inr (3, 1 / 4)) ''Cutoff'' seeded = Inr st'
     \<and> energy_array st' ''Cutoff'' = Some [0, 3]
     \<and> force_array st' ''Cutoff'' = Some [4 / 10, 1 / 4]"
  using update_property_arrays_appends [of seeded "''Cutoff''" "[0]" "[4 / 10]" 3 "1 / 4"]
  by (simp add: seeded_def with_history_def) blast

subsection \<open>A sweep that reaches the end of its list\<close>




section \<open>The convergence rule\<close>

text \<open>
  C3. For a history of at least two samples (the two lists of the parameter have
  the same length, at least 2), \<^verbatim>\<open>_check_progress\<close> returns 0, "the analysis is
  complete", exactly when the most recent energy difference is non-zero and the
  most recent force difference is strictly below the tolerance; otherwise it
  returns 1, "continue". In particular it returns 1 whenever all consecutive
  energy differences are zero, whatever the forces are. The check of
  \<^verbatim>\<open>CutoffOptimizer\<close> decides in the same way.
\<close>

theorem check_progress_converged_iff:
  assumes "energy_array st p = Some es" and "force_array st p = Some fs"
    and "length fs = length es" and "2 \<le> length es"
  shows "check_progress p st =
           Inr (if last es - last (butlast es) \<noteq> 0
                   \<and> last fs - last (butlast fs) < tolerance st then 0 else 1)
         \<and> (list_all (\<lambda>d. d = 0) (np_diff es) \<longrightarrow> check_progress p st = Inr 1)
         \<and> cutoff_check_progress (tolerance st) es fs = check_progress p st"
proof -
  have fs2: "2 \<le> length fs" using assms by simp
  have en: "py_index (np_diff es) (- 1) = Inr (last es - last (butlast es))"
    using assms(4) by (rule np_diff_last)
  have fr: "py_index (np_diff fs) (- 1) = Inr (last fs - last (butlast fs))"
    using fs2 by (rule np_diff_last)
  have len: "\<not> length es < 2" using assms(4) by simp
  have main: "check_progress p st =
           Inr (if last es - last (butlast es) \<noteq> 0
                   \<and> last fs - last (butlast fs) < tolerance st then 0 else 1)"
    by (simp add: check_progress_def assms(1,2) len en fr)
  have same: "cutoff_check_progress (tolerance st) es fs = check_progress p st"
    by (simp add: check_progress_def cutoff_check_progress_def assms(1,2) len en fr)
  have ne: "np_diff es \<noteq> []"
    using assms(4) length_np_diff [of es] by (cases "np_diff es") auto
  have zero: "check_progress p st = Inr 1" if all: "list_all (\<lambda>d. d = 0) (np_diff es)"
  proof -
    from ne have "last (np_diff es) \<in> set (np_diff es)" by simp
    with all have "last (np_diff es) = 0" by (simp add: list_all_iff)
    moreover have "py_index (np_diff es) (- 1) = Inr (last (np_diff es))"
      using ne by (rule py_index_last)
    ultimately have "last es - last (butlast es) = 0" using en by simp
    with main show ?thesis by simp
  qed
  from main same zero show ?thesis by blast
qed

theorem check_progress_converged_iff_witness:
  "check_progress ''Cutoff'' three_samples = Inr 0
   \<and> cutoff_check_progress (tolerance three_samples) [1, 2, 4] [5 / 10, 4 / 10, 3999 / 10000]
       = Inr 0"
  using check_progress_converged_iff
    [of three_samples "''Cutoff''" "[1, 2, 4]" "[5 / 10, 4 / 10, 3999 / 10000]"]
  by (simp add: three_samples_def fresh_def)

section \<open>The result file is never found\<close>

text \<open>
  C10. For every working directory, project name and directory content,
  \<^verbatim>\<open>_get_force_file\<close> ends the process: the list it searches holds only paths
  ending in \<^verbatim>\<open>.xyz\<close>, and the name it looks for ends in \<^verbatim>\<open>.out\<close>. Hence
  \<^verbatim>\<open>_fetch_properties\<close> never gets as far as opening a file.
\<close>

theorem get_force_file_always_exits:
  "get_force_file fs st = Inl SystemExit
   \<and> fetch_properties to_float to_int fs st = Inl SystemExit"
proof -
  have "project_name st @ ''.out'' \<notin> set (glob_xyz fs (cwd st))"
    using glob_xyz_suffix xyz_not_out by blast
  then have "get_force_file fs st = Inl SystemExit"
    by (simp add: get_force_file_def Let_def)
  then show ?thesis by (simp add: fetch_properties_def)
qed

section \<open>Candidate lists\<close>

text \<open>
  C9. When \<open>start\<close> and \<open>stop\<close> hold the three parameter names,
  \<^verbatim>\<open>_get_static_range\<close> returns with a candidate list for each of them; where
  \<open>start \<le> stop\<close>, the list has exactly the configured number of elements (10
  for the two cutoffs, 4 for the grid count), is non-decreasing, begins with
  \<open>start\<close> and ends with \<open>stop\<close>, both rounded down to an integer. The list of
  \<^verbatim>\<open>CutoffOptimizer\<close> (10 elements) has the same properties.
\<close>

theorem get_static_range_candidates:
  assumes "start st ''Cutoff'' = Some a1" and "stop st ''Cutoff'' = Some b1"
    and "start st ''Rel_cutoff'' = Some a2" and "stop st ''Rel_cutoff'' = Some b2"
    and "start st ''Ngrids'' = Some a3" and "stop st ''Ngrids'' = Some b3"
  shows "\<exists>st' c1 c2 c3. get_static_range st = Inr st'
           \<and> loop_range st' ''Cutoff'' = Some c1
           \<and> loop_range st' ''Rel_cutoff'' = Some c2
           \<and> loop_range st' ''Ngrids'' = Some c3
           \<and> (a1 \<le> b1 \<longrightarrow> candidates_ok c1 10 a1 b1)
           \<and> (a2 \<le> b2 \<longrightarrow> candidates_ok c2 10 a2 b2)
           \<and> (a3 \<le> b3 \<longrightarrow> candidates_ok c3 4 a3 b3)
           \<and> (a \<le> b \<longrightarrow> candidates_ok (cutoff_get_static_range a b) 10 a b)"
proof -
  define st1 where "st1 = st\<lparr>loop_range := (loop_range st)(''Cutoff'' \<mapsto> np_linspace a1 b1 10)\<rparr>"
  define st2 where
    "st2 = st1\<lparr>loop_range := (loop_range st1)(''Rel_cutoff'' \<mapsto> np_linspace a2 b2 10)\<rparr>"
  define st3 where
    "st3 = st2\<lparr>loop_range := (loop_range st2)(''Ngrids'' \<mapsto> np_linspace a3 b3 4)\<rparr>"
  have r1: "static_range st ''Cutoff'' 10 = Inr st1"
    unfolding st1_def using assms(1,2) by (rule static_range_Some)
  have r2: "static_range st1 ''Rel_cutoff'' 10 = Inr st2"
    unfolding st2_def by (rule static_range_Some) (simp_all add: st1_def assms)
  have r3: "static_range st2 ''Ngrids'' 4 = Inr st3"
    unfolding st3_def by (rule static_range_Some) (simp_all add: st2_def st1_def assms)
  have run: "get_static_range st = Inr st3"
    by (simp add: get_static_range_def r1 r2 r3)
  have l1: "loop_range st3 ''Cutoff'' = Some (np_linspace a1 b1 10)"
    by (simp add: st3_def st2_def st1_def)
  have l2: "loop_range st3 ''Rel_cutoff'' = Some (np_linspace a2 b2 10)"
    by (simp add: st3_def st2_def st1_def)
  have l3: "loop_range st3 ''Ngrids'' = Some (np_linspace a3 b3 4)"
    by (simp add: st3_def st2_def st1_def)
  have ok: "x \<le> y \<longrightarrow> candidates_ok (np_linspace x y 10) 10 x y"
       "x \<le> y \<longrightarrow> candidates_ok (np_linspace x y 4) 4 x y" for x y
    using np_linspace_props [of 10 x y] np_linspace_props [of 4 x y] by simp_all
  show ?thesis
    using run l1 l2 l3 ok by (auto simp: cutoff_get_static_range_def)
qed

theorem get_static_range_candidates_witness:
  "\<exists>st' c1 c2 c3. get_static_range fresh = Inr st'
     \<and> loop_range st' ''Cutoff'' = Some c1
     \<and> loop_range st' ''Rel_cutoff'' = Some c2
     \<and> loop_range st' ''Ngrids'' = Some c3
     \<and> candidates_ok c1 10 100 1500
     \<and> candidates_ok c2 10 60 120
     \<and> candidates_ok c3 4 5 8
     \<and> candidates_ok (cutoff_get_static_range 100 1600) 10 100 1600"
  using get_static_range_candidates [of fresh 100 1500 60 120 5 8 100 1600]
  by (simp add: fresh_def)

section \<open>What the sweep does with fewer than two samples\<close>

text \<open>
  C1. Evaluation of the code on histories of fewer than two samples. With no
  sample or one sample recorded, \<^verbatim>\<open>_check_progress\<close> returns 0, the value the
  loops read as "stop": a stage that starts on empty lists leaves its loop after
  the first candidate, whatever candidates follow, and does so with
  \<^verbatim>\<open>IndexError\<close> from \<^verbatim>\<open>energy_array[name][-2]\<close>. The loop of \<^verbatim>\<open>CutoffOptimizer\<close>
  likewise ends with exactly one sample recorded.
\<close>

theorem check_progress_stops_first:
  "check_progress name (with_history name [] []) = Inr 0
   \<and> check_progress name (with_history name [e] [f]) = Inr 0
   \<and> optimization_loop (\<lambda>st. Inr (e, f)) name name (c # rest) (with_history name [] [])
       = Inl IndexError
   \<and> cutoff_check_progress tol [e] [f] = Inr 0
   \<and> cutoff_loop scf tol (c # rest) ([], []) = Inr ([fst (scf c)], [snd (scf c)])"
proof -
  have "optimization_loop (\<lambda>st. Inr (e, f)) name name (c # rest) (with_history name [] [])
       = Inl IndexError"
    by (subst first_candidate_stops) (simp_all add: with_history_def)
  then show ?thesis
    by (simp add: check_progress_def with_history_def cutoff_check_progress_def
          cutoff_first_candidate_stops)
qed

section \<open>The value a stage accepts\<close>

text \<open>
  C2. Evaluation of the code on the candidates 100, 200, 300, 400 with an engine
  whose force difference first falls below the tolerance at the third
  candidate. Started on empty lists the stage ends with \<^verbatim>\<open>IndexError\<close> after the
  first candidate. Started with one earlier sample (energy 0, force 0.4) in the
  lists, it stops at the candidate 300 and writes \<^verbatim>\<open>energy_array['Cutoff'][-2]\<close>,
  the energy 2 recorded for the candidate 200, as the cutoff.
\<close>

theorem accepted_value_example:
  "optimization_loop example_run ''Cutoff'' ''Cutoff'' [100, 200, 300, 400]
       (with_history ''Cutoff'' [] []) = Inl IndexError
   \<and> (\<exists>st'. optimization_loop example_run ''Cutoff'' ''Cutoff'' [100, 200, 300, 400]
               (with_history ''Cutoff'' [0] [4 / 10]) = Inr st'
            \<and> energy_array st' ''Cutoff'' = Some [0, 1, 2, 3]
            \<and> m_grid st' ''Cutoff'' = Some 2)"
proof -
  have a: "optimization_loop example_run ''Cutoff'' ''Cutoff'' [100, 200, 300, 400]
       (with_history ''Cutoff'' [] []) = Inl IndexError"
    by (subst first_candidate_stops)
       (simp_all add: with_history_def example_run_def fresh_def)
  have b: "\<exists>st'. optimization_loop example_run ''Cutoff'' ''Cutoff'' [100, 200, 300, 400]
               (with_history ''Cutoff'' [0] [4 / 10]) = Inr st'
            \<and> energy_array st' ''Cutoff'' = Some [0, 1, 2, 3]
            \<and> m_grid st' ''Cutoff'' = Some 2"
    by (simp add: with_history_def example_run_def fresh_def perform_loop_operation_def
          update_property_arrays_def check_progress_def py_index_def Let_def)
  from a b show ?thesis by blast
qed

section \<open>The histories at the start of a stage\<close>

text \<open>
  C4. Evaluation of the code on the object as its constructor leaves it. Both
  \<^verbatim>\<open>energy_array\<close> and \<^verbatim>\<open>force_array\<close> are the empty dictionary, so no list
  exists under any parameter name; the first \<^verbatim>\<open>_update_property_arrays\<close> of a
  stage raises \<^verbatim>\<open>KeyError\<close> at \<^verbatim>\<open>self.energy_array[name]\<close> instead of appending
  the sample, and the stage ends there.
\<close>

theorem no_history_at_stage_start:
  "init None None (Some ''template.inp'') (2 / 1000) ''./'' ''optimization'' Map.empty = Inr fresh
   \<and> energy_array fresh name = None
   \<and> force_array fresh name = None
   \<and> update_property_arrays (Inr (energy, force)) name fresh = Inl KeyError
   \<and> optimization_loop (\<lambda>st. Inr (energy, force)) name checked (c # rest) fresh = Inl KeyError"
proof -
  have none: "energy_array fresh name = None" "force_array fresh name = None"
    by (simp_all add: fresh_def)
  have loop: "optimization_loop (\<lambda>st. Inr (energy, force)) name checked (c # rest) fresh
                = Inl KeyError"
    using missing_history_raises [OF none(1)] by simp
  have upd: "update_property_arrays (Inr (energy, force)) name fresh = Inl KeyError"
    by (simp add: update_property_arrays_def none)
  from init_fresh none loop upd show ?thesis by blast
qed

section \<open>A stage that never converges\<close>



section \<open>The three stages in sequence\<close>

text \<open>
  C8. Evaluation of \<^verbatim>\<open>run_optimizer\<close> on the object as constructed with its
  defaults. Whatever the engine writes, the process ends with \<^verbatim>\<open>sys.exit\<close> in the
  first candidate of the first stage, since the result file is never found; with
  sample reading replaced by one that always succeeds, the first stage ends with
  \<^verbatim>\<open>KeyError\<close>. The second and third stage are not reached.
\<close>

theorem run_optimizer_never_completes:
  "run_optimizer (engine_run to_float to_int engine) fresh = Inl SystemExit
   \<and> run_optimizer (\<lambda>st. Inr (energy, force)) fresh = Inl KeyError"
proof -
  obtain st where st: "get_static_range fresh = Inr st" "energy_array st = Map.empty"
    "loop_range st ''Cutoff'' = Some [100, 255, 411, 566, 722, 877, 1033, 1188, 1344, 1500]"
    "loop_range st ''Rel_cutoff'' = Some (np_linspace 60 120 10)"
    "loop_range st ''Ngrids'' = Some [5, 6, 7, 8]"
    using get_static_range_fresh by blast
  define st2 where "st2 = update_property [(''Rel_cutoff'', 60), (''Ngrids'', 5)] st"
  have d: "set_defaults_parameters st = Inr st2"
    by (simp add: set_defaults_parameters_def st np_linspace_rel_hd st2_def)
       (simp add: py_index_def)
  have e: "energy_array st2 ''Cutoff'' = None" and
       l: "loop_range st2 ''Cutoff'' = Some [100, 255, 411, 566, 722, 877, 1033, 1188, 1344, 1500]"
    unfolding st2_def using update_property_keeps [of _ st] st by simp_all
  have s1: "run_cutoff_optimization run st2 =
           (case run (update_property [(''Cutoff'', 100)] st2) of
              Inl e \<Rightarrow> Inl e | Inr s \<Rightarrow> Inl KeyError)" for run
    using missing_history_raises [OF e, of run "''Cutoff''" 100]
    by (simp add: run_cutoff_optimization_def run_stage_def l del: optimization_loop.simps)
  have a: "run_optimizer (engine_run to_float to_int engine) fresh = Inl SystemExit"
    by (simp add: run_optimizer_def st d s1 engine_run_def fetch_never_succeeds)
  have b: "run_optimizer (\<lambda>st. Inr (energy, force)) fresh = Inl KeyError"
    by (simp add: run_optimizer_def st d s1)
  from a b show ?thesis by blast
qed

section \<open>A force table without its end marker\<close>

text \<open>
  C7. Evaluation of \<^verbatim>\<open>_read_forces\<close> on two artifacts that have the start marker
  and no end marker. When the start marker is the last line, the function
  returns 0.0; when a line follows it, reading the unbound local \<^verbatim>\<open>stop\<close> raises
  \<^verbatim>\<open>UnboundLocalError\<close>.
\<close>

theorem read_forces_without_end_marker:
  "read_forces to_float [pattern_1] 1 = Inr 0
   \<and> read_forces to_float [pattern_1, ''      1      1      O   0.0   0.0   3.0''] 1
       = Inl UnboundLocalError"
  by (simp add: read_forces_def pattern_1_def pattern_2_def)

section \<open>Reading the energy\<close>

text \<open>
  C6, as the code has it. When no line of the artifact contains the marker
  \<^verbatim>\<open>Total FORCE_EVAL\<close>, \<^verbatim>\<open>_read_energy\<close> ends the process. When the last line
  containing the marker is \<open>line\<close>, its trailing token converts to \<open>v\<close>, and the
  trailing token of every earlier line containing the marker converts to a
  float as well, \<^verbatim>\<open>_read_energy\<close> returns \<open>v\<close>.
\<close>

theorem read_energy_last_match:
  "(filter energy_line ls = [] \<longrightarrow> read_energy to_float ls = Inl SystemExit)
   \<and> (energy_lines_convert to_float pre \<and> energy_line line
        \<and> trailing_float to_float line = Some v
        \<and> filter energy_line post = []
      \<longrightarrow> read_energy to_float (pre @ line # post) = Inr v)"
proof (intro conjI impI)
  assume "filter energy_line ls = []"
  then show "read_energy to_float ls = Inl SystemExit"
    by (simp add: read_energy_def read_energy_loop_no_match)
next
  assume a: "energy_lines_convert to_float pre \<and> energy_line line
        \<and> trailing_float to_float line = Some v
        \<and> filter energy_line post = []"
  then obtain e' where
    "read_energy_loop to_float (pre @ line # post) None = read_energy_loop to_float (line # post) e'"
    using read_energy_loop_prefix by blast
  moreover from a obtain tok where "py_index (py_split line) (- 1) = Inr tok" "to_float tok = Some v"
    by (auto simp: trailing_float_def split: sum.splits)
  ultimately have "read_energy_loop to_float (pre @ line # post) None = Inr (Some v)"
    using a by (simp add: energy_line_def read_energy_loop_no_match)
  then show "read_energy to_float (pre @ line # post) = Inr v"
    by (simp add: read_energy_def)
qed

theorem read_energy_last_match_witness:
  "read_energy float_literal [''no marker here''] = Inl SystemExit
   \<and> read_energy float_literal energy_artifact = Inr (- 69 / 4)"
proof -
  have split: "energy_artifact = take 3 energy_artifact @ energy_artifact ! 3 # drop 4 energy_artifact"
    by (simp add: energy_artifact_def)
  have 1: "filter energy_line [''no marker here''] = []"
    by (simp add: energy_line_def)
  have 2: "energy_lines_convert float_literal (take 3 energy_artifact)"
    by (simp add: energy_artifact_def energy_lines_convert_def energy_line_def
          trailing_float_def py_split_def is_space_def py_index_def float_examples)
  have 3: "energy_line (energy_artifact ! 3)"
    by (simp add: energy_artifact_def energy_line_def)
  have 4: "trailing_float float_literal (energy_artifact ! 3) = Some (- 69 / 4)"
    by (simp add: energy_artifact_def trailing_float_def py_split_def is_space_def
          py_index_def float_examples)
  have 5: "filter energy_line (drop 4 energy_artifact) = []"
    by (simp add: energy_artifact_def energy_line_def)
  show ?thesis
    using read_energy_last_match [of "[''no marker here'']" float_literal
        "take 3 energy_artifact" "energy_artifact ! 3" "- 69 / 4" "drop 4 energy_artifact"]
      1 2 3 4 5 split by simp
qed

text \<open>
  The condition on the earlier lines is needed: each line with the marker is
  converted when it is met, so an earlier one whose trailing token is no number
  raises \<^verbatim>\<open>ValueError\<close>, although the last one ends in the number 1.5.
\<close>

theorem read_energy_earlier_line_counterexample:
  "read_energy float_literal two_energy_lines = Inl ValueError
   \<and> energy_line (last two_energy_lines)
   \<and> trailing_float float_literal (last two_energy_lines) = Some (3 / 2)"
  by (simp add: read_energy_def two_energy_lines_def energy_line_def trailing_float_def
        py_split_def is_space_def py_index_def float_examples)

end
